theory Spec2Isabelle
  imports Complex_Main "HOL-Library.Sublist"
begin

section \<open>Python values used by zillow\_arv\_calculator.py\<close>

text \<open>
  Exceptions are values: a function of the source that can raise returns
  \<open>py_error + 'a\<close>, with \<open>Inl\<close> the exception.
\<close>

datatype py_error = SyntaxError | ValueError | IndexError | TypeError

text \<open>
  A Python \<open>float\<close>. A finite float is the rational number it denotes;
  the rounding of binary floating point to 53 bits is not part of this model, so
  arithmetic on finite floats is exact rational arithmetic.
\<close>

datatype pyfloat = Fin rat | PosInf | NegInf | NaN

subsection \<open>Characters and strings\<close>

text \<open>
  Text is a list of 8-bit characters, read as the code points U+0000 to U+00FF.
  \<open>is_space\<close> is Python's notion of white space on these code points (what
  \<open>str.isspace\<close>, \<open>str.split()\<close>, \<open>str.strip()\<close> and the pattern \<open>\s\<close> use), and
  \<open>is_digit\<close> the decimal digits (the pattern \<open>\d\<close>).
\<close>

definition is_digit :: "char \<Rightarrow> bool" where
  "is_digit c = (c \<in> set ''0123456789'')"

definition is_space :: "char \<Rightarrow> bool" where
  "is_space c = ((of_char c :: nat) \<in> set [9, 10, 11, 12, 13, 28, 29, 30, 31, 32, 133, 160])"

definition digit_val :: "char \<Rightarrow> int" where
  "digit_val c = int (of_char c) - 48"

text \<open>\<open>s.strip()\<close>\<close>

definition strip :: "string \<Rightarrow> string" where
  "strip s = rev (dropWhile is_space (rev (dropWhile is_space s)))"

text \<open>\<open>s.split()[0]\<close>: the first white-space separated token, IndexError when there is none.\<close>

definition first_token :: "string \<Rightarrow> py_error + string" where
  "first_token s =
     (let t = dropWhile is_space s in
      if t = [] then Inl IndexError else Inr (takeWhile (\<lambda>c. \<not> is_space c) t))"

text \<open>\<open>s.replace(',', '')\<close>\<close>

definition remove_commas :: "string \<Rightarrow> string" where
  "remove_commas s = filter (\<lambda>c. c \<noteq> CHR '','') s"

text \<open>\<open>needle in s\<close> for strings\<close>

fun str_contains :: "string \<Rightarrow> string \<Rightarrow> bool" where
  "str_contains needle [] = (needle = [])"
| "str_contains needle (c # cs) = (prefix needle (c # cs) \<or> str_contains needle cs)"

subsection \<open>int() and float() on strings\<close>

text \<open>
  The part of a number that both builtins accept: decimal digits, with single underscores
  allowed between two digits.
\<close>

fun digitpart :: "string \<Rightarrow> bool" where
  "digitpart [] = False"
| "digitpart [c] = is_digit c"
| "digitpart (c # d # cs) =
     (is_digit c \<and> (if d = CHR ''_'' then digitpart cs else digitpart (d # cs)))"

definition digits_value :: "string \<Rightarrow> int" where
  "digits_value s = foldl (\<lambda>a c. 10 * a + digit_val c) 0 (filter is_digit s)"

text \<open>An optional sign in front: whether it is a minus, and what follows it.\<close>

definition split_sign :: "string \<Rightarrow> bool \<times> string" where
  "split_sign t =
     (case t of
        [] \<Rightarrow> (False, [])
      | c # cs \<Rightarrow>
          if c = CHR ''-'' then (True, cs)
          else if c = CHR ''+'' then (False, cs)
          else (False, t))"

text \<open>
  \<open>int(s)\<close> in base 10: surrounding white space is dropped, then an optional sign and a
  digit part; anything else is a ValueError. (The bound that recent interpreters put on the
  number of digits is not modelled.)
\<close>

definition py_int :: "string \<Rightarrow> py_error + int" where
  "py_int s =
     (let (neg, u) = split_sign (strip s) in
      if digitpart u then Inr (if neg then - digits_value u else digits_value u)
      else Inl ValueError)"

definition to_lower :: "char \<Rightarrow> char" where
  "to_lower c =
     (let n = (of_char c :: nat) in if 65 \<le> n \<and> n \<le> 90 then char_of (n + 32) else c)"

definition is_exp_mark :: "char \<Rightarrow> bool" where
  "is_exp_mark c = (c = CHR ''e'' \<or> c = CHR ''E'')"

text \<open>
  The mantissa \<open>[digitpart] "." digitpart | digitpart ["."]\<close> of a float literal and
  its value.
\<close>

definition mantissa :: "string \<Rightarrow> rat option" where
  "mantissa m =
     (let ip = takeWhile (\<lambda>c. c \<noteq> CHR ''.'') m;
          dp = dropWhile (\<lambda>c. c \<noteq> CHR ''.'') m in
      if dp = [] then (if digitpart ip then Some (of_int (digits_value ip)) else None)
      else
        (let fp = tl dp in
         if (digitpart ip \<and> (fp = [] \<or> digitpart fp)) \<or> (ip = [] \<and> digitpart fp)
         then Some (of_int (digits_value ip) +
                    of_int (digits_value fp) / 10 ^ length (filter is_digit fp))
         else None))"

text \<open>The exponent \<open>("e" | "E") [sign] digitpart\<close>, when there is one.\<close>

definition exponent :: "string \<Rightarrow> int option" where
  "exponent e =
     (if e = [] then Some 0
      else
        (let (neg, u) = split_sign (tl e) in
         if digitpart u then Some (if neg then - digits_value u else digits_value u)
         else None))"

definition scale10 :: "rat \<Rightarrow> int \<Rightarrow> rat" where
  "scale10 q e = (if 0 \<le> e then q * 10 ^ nat e else q / 10 ^ nat (- e))"

text \<open>
  \<open>float(s)\<close>: surrounding white space is dropped, then an optional sign and
  \<open>inf\<close>, \<open>infinity\<close>, \<open>nan\<close> (in any case) or a decimal number with an optional
  exponent; anything else is a ValueError.
\<close>

definition py_float :: "string \<Rightarrow> py_error + pyfloat" where
  "py_float s =
     (let (neg, u) = split_sign (strip s); l = map to_lower u in
      if l = ''inf'' \<or> l = ''infinity'' then Inr (if neg then NegInf else PosInf)
      else if l = ''nan'' then Inr NaN
      else
        (case (mantissa (takeWhile (\<lambda>c. \<not> is_exp_mark c) u),
               exponent (dropWhile (\<lambda>c. \<not> is_exp_mark c) u)) of
           (Some q, Some e) \<Rightarrow> Inr (Fin (scale10 (if neg then - q else q) e))
         | _ \<Rightarrow> Inl ValueError))"

text \<open>Sequencing of computations that may raise.\<close>

definition pbind :: "py_error + 'a \<Rightarrow> ('a \<Rightarrow> py_error + 'b) \<Rightarrow> py_error + 'b" where
  "pbind m f = (case m of Inl e \<Rightarrow> Inl e | Inr x \<Rightarrow> f x)"

subsection \<open>Regular expressions\<close>

text \<open>
  The patterns of the program use single characters and character classes, sequence, the
  greedy operators \<open>*\<close>, \<open>+\<close>, \<open>?\<close> and counted repetition, and one capturing group
  that is not inside a repetition. \<open>rmatch r s\<close> lists what remains of \<open>s\<close> after
  each way of matching \<open>r\<close> at its start, in the order in which the backtracking
  matcher of \<open>re\<close> tries them: a greedy operator tries one more repetition before it
  tries to stop.
\<close>

datatype rx = Eps | Atom "char \<Rightarrow> bool" | Seq rx rx | Opt rx | Star rx

text \<open>
  Repetition of a matcher \<open>m\<close>, at most \<open>n\<close> times, each repetition consuming at
  least one character (every repeated pattern of the program does).
\<close>

fun star :: "(string \<Rightarrow> string list) \<Rightarrow> nat \<Rightarrow> string \<Rightarrow> string list" where
  "star m 0 s = [s]"
| "star m (Suc n) s =
     concat (map (\<lambda>t. if length t < length s then star m n t else []) (m s)) @ [s]"

primrec rmatch :: "rx \<Rightarrow> string \<Rightarrow> string list" where
  "rmatch Eps s = [s]"
| "rmatch (Atom p) s = (case s of [] \<Rightarrow> [] | c # cs \<Rightarrow> if p c then [cs] else [])"
| "rmatch (Seq a b) s = concat (map (rmatch b) (rmatch a s))"
| "rmatch (Opt a) s = rmatch a s @ [s]"
| "rmatch (Star a) s = star (rmatch a) (length s) s"

definition Chr :: "char \<Rightarrow> rx" where
  "Chr c = Atom (\<lambda>x. x = c)"

definition Str :: "string \<Rightarrow> rx" where
  "Str s = foldr (\<lambda>c r. Seq (Chr c) r) s Eps"

definition Plus :: "rx \<Rightarrow> rx" where
  "Plus r = Seq r (Star r)"

definition Digit :: rx where
  "Digit = Atom is_digit"

definition Space :: rx where
  "Space = Atom is_space"

text \<open>
  A pattern with one capturing group is given by what stands before the group, the group
  and what stands after it. \<open>match_here\<close> lists the texts of group 1 for the matches
  that start at the beginning of \<open>s\<close>, in the matcher's order.
\<close>

type_synonym pattern = "rx \<times> rx \<times> rx"

definition match_here :: "pattern \<Rightarrow> string \<Rightarrow> string list" where
  "match_here p s =
     (case p of (pre, grp, post) \<Rightarrow>
        concat (map (\<lambda>r1.
          concat (map (\<lambda>r2.
            map (\<lambda>r3. take (length r1 - length r2) r1) (rmatch post r2))
          (rmatch grp r1)))
        (rmatch pre s)))"

text \<open>
  \<open>re.search(p, s)\<close> followed by \<open>.group(1)\<close>: the first match at the leftmost
  position that has one; \<open>None\<close> when \<open>re.search\<close> finds nothing.
\<close>

fun re_search :: "pattern \<Rightarrow> string \<Rightarrow> string option" where
  "re_search p [] = (case match_here p [] of [] \<Rightarrow> None | g # _ \<Rightarrow> Some g)"
| "re_search p (c # cs) =
     (case match_here p (c # cs) of [] \<Rightarrow> re_search p cs | g # _ \<Rightarrow> Some g)"

section \<open>fetch\_zillow\_page\<close>

text \<open>
  What \<open>requests.get\<close> hands back, as far as the program reads it. The request itself
  (the header chosen from \<open>USER_AGENTS\<close>, the two seconds of sleep) is outside the model:
  the network is a function from the URL to the response.
\<close>

record response =
  status_code :: int
  resp_text :: string

definition fetch_zillow_page :: "(string \<Rightarrow> response) \<Rightarrow> string \<Rightarrow> string" where
  "fetch_zillow_page http url =
     (let response = http url in
      if status_code response = 200 then resp_text response else [])"

section \<open>get\_property\_details\<close>

text \<open>
  \<open>urllib.parse.quote\<close> with its default \<open>safe = '/'\<close>: letters, digits and
  \<open>_.-~/\<close> stay, every other character becomes \<open>%XX\<close> for each byte of its
  UTF-8 encoding.
\<close>

definition is_unreserved :: "char \<Rightarrow> bool" where
  "is_unreserved c =
     (let n = (of_char c :: nat) in
      (65 \<le> n \<and> n \<le> 90) \<or> (97 \<le> n \<and> n \<le> 122) \<or> is_digit c \<or> c \<in> set ''_.-~/'')"

definition utf8_bytes :: "char \<Rightarrow> nat list" where
  "utf8_bytes c =
     (let n = (of_char c :: nat) in
      if n < 128 then [n] else [192 + n div 64, 128 + n mod 64])"

definition percent :: "nat \<Rightarrow> string" where
  "percent b = [CHR ''%'', ''0123456789ABCDEF'' ! (b div 16), ''0123456789ABCDEF'' ! (b mod 16)]"

definition quote :: "string \<Rightarrow> string" where
  "quote s =
     concat (map (\<lambda>c. if is_unreserved c then [c] else concat (map percent (utf8_bytes c))) s)"

text \<open>\<open>s.replace(' ', '-')\<close>\<close>

definition spaces_to_dashes :: "string \<Rightarrow> string" where
  "spaces_to_dashes s = map (\<lambda>c. if c = CHR '' '' then CHR ''-'' else c) s"

text \<open>
  The patterns of lines 53 to 60, each as what precedes group 1, group 1, and what
  follows it:
  \<^verbatim>\<open>(\d+(?:\.\d+)?)\s*bd\<close>, \<^verbatim>\<open>(\d+(?:\.\d+)?)\s*ba\<close>,
  \<^verbatim>\<open>(\d+(?:,\d{3})*)\s*sqft\<close>, \<^verbatim>\<open>lot:\s*(\d+(?:,\d{3})*)\<close>,
  \<^verbatim>\<open>built\s*(\d{4})\<close>, \<^verbatim>\<open>"latitude":\s*([\d.-]+)\<close> and
  \<^verbatim>\<open>"longitude":\s*([\d.-]+)\<close>.
\<close>

definition decimal_rx :: rx where
  "decimal_rx = Seq (Plus Digit) (Opt (Seq (Chr CHR ''.'') (Plus Digit)))"

definition thousands_rx :: rx where
  "thousands_rx = Seq (Plus Digit) (Star (Seq (Chr CHR '','') (Seq Digit (Seq Digit Digit))))"

definition coord_rx :: rx where
  "coord_rx = Plus (Atom (\<lambda>c. is_digit c \<or> c = CHR ''.'' \<or> c = CHR ''-''))"

definition beds_pattern :: pattern where
  "beds_pattern = (Eps, decimal_rx, Seq (Star Space) (Str ''bd''))"

definition baths_pattern :: pattern where
  "baths_pattern = (Eps, decimal_rx, Seq (Star Space) (Str ''ba''))"

definition sq_ft_pattern :: pattern where
  "sq_ft_pattern = (Eps, thousands_rx, Seq (Star Space) (Str ''sqft''))"

definition lot_size_pattern :: pattern where
  "lot_size_pattern = (Seq (Str ''lot:'') (Star Space), thousands_rx, Eps)"

definition year_built_pattern :: pattern where
  "year_built_pattern =
     (Seq (Str ''built'') (Star Space), Seq Digit (Seq Digit (Seq Digit Digit)), Eps)"

definition latitude_pattern :: pattern where
  \<open>latitude_pattern = (Seq (Str ''"latitude":'') (Star Space), coord_rx, Eps)\<close>

definition longitude_pattern :: pattern where
  \<open>longitude_pattern = (Seq (Str ''"longitude":'') (Star Space), coord_rx, Eps)\<close>

text \<open>
  The three shapes of the conditional expressions of lines 53 to 62:
  \<open>int(m.group(1)) if m else 0\<close>, the same with \<open>.replace(',', '')\<close> before
  \<open>int\<close>, and \<open>float(m.group(1)) if m else None\<close>.
\<close>

definition int_or_0 :: "pattern \<Rightarrow> string \<Rightarrow> py_error + int" where
  "int_or_0 p html = (case re_search p html of None \<Rightarrow> Inr 0 | Some g \<Rightarrow> py_int g)"

definition int_no_commas_or_0 :: "pattern \<Rightarrow> string \<Rightarrow> py_error + int" where
  "int_no_commas_or_0 p html =
     (case re_search p html of None \<Rightarrow> Inr 0 | Some g \<Rightarrow> py_int (remove_commas g))"

definition float_or_None :: "pattern \<Rightarrow> string \<Rightarrow> py_error + pyfloat option" where
  "float_or_None p html =
     (case re_search p html of
        None \<Rightarrow> Inr None
      | Some g \<Rightarrow> pbind (py_float g) (\<lambda>x. Inr (Some x)))"

text \<open>The dict that \<open>get_property_details\<close> returns when the page is not empty.\<close>

record details =
  prop_address :: string
  prop_beds :: int
  prop_baths :: int
  prop_sq_ft :: int
  prop_lot_size :: int
  prop_year_built :: int
  prop_latitude :: "pyfloat option"
  prop_longitude :: "pyfloat option"

text \<open>
  Lines 53 to 76, on the text of the page. The values are computed in the order of the
  source, and the first exception ends the call.
\<close>

definition extract_details :: "string \<Rightarrow> string \<Rightarrow> py_error + details" where
  "extract_details address html =
     pbind (int_or_0 beds_pattern html) (\<lambda>beds.
     pbind (int_or_0 baths_pattern html) (\<lambda>baths.
     pbind (int_no_commas_or_0 sq_ft_pattern html) (\<lambda>sq_ft.
     pbind (int_no_commas_or_0 lot_size_pattern html) (\<lambda>lot_size.
     pbind (int_or_0 year_built_pattern html) (\<lambda>year_built.
     pbind (float_or_None latitude_pattern html) (\<lambda>lat.
     pbind (float_or_None longitude_pattern html) (\<lambda>lon.
       Inr \<lparr>prop_address = address, prop_beds = beds, prop_baths = baths,
            prop_sq_ft = sq_ft, prop_lot_size = lot_size, prop_year_built = year_built,
            prop_latitude = lat, prop_longitude = lon\<rparr>)))))))"

text \<open>
  The whole function. \<open>None\<close> is the empty dict \<open>{}\<close> of line 48. The warning of
  line 65 only writes to the page and is left out.
\<close>

definition get_property_details ::
  "(string \<Rightarrow> response) \<Rightarrow> string \<Rightarrow> py_error + details option" where
  "get_property_details http address =
     (let encoded_address = quote address;
          url = ''https://www.zillow.com/homedetails/'' @ spaces_to_dashes encoded_address;
          html = fetch_zillow_page http url in
      if html = [] then Inr None
      else pbind (extract_details address html) (\<lambda>d. Inr (Some d)))"

section \<open>The comparable records and the frame that holds them\<close>

text \<open>
  One row of the frame built at the end of \<open>get_comps\<close>: the dict with the keys
  Address, Beds, Baths, Sq Ft, Sold Date and Sold Price.
\<close>

record comp =
  Address :: string
  Beds :: int
  Baths :: pyfloat
  Sq_Ft :: int
  Sold_Date :: string
  Sold_Price :: int

text \<open>
  A pandas DataFrame, as far as the program looks at it: its column labels and its
  rows. \<open>pd.DataFrame()\<close> and \<open>pd.DataFrame([])\<close> have neither rows nor columns;
  a frame built from a non-empty list of dicts has the dicts' keys as columns.
\<close>

record dataframe =
  columns :: "string list"
  rows :: "comp list"

definition pd_DataFrame :: "comp list \<Rightarrow> dataframe" where
  "pd_DataFrame comps =
     (if comps = [] then \<lparr>columns = [], rows = []\<rparr>
      else \<lparr>columns = [''Address'', ''Beds'', ''Baths'', ''Sq Ft'', ''Sold Date'', ''Sold Price''],
            rows = comps\<rparr>)"

text \<open>\<open>df.empty\<close>: one of the two axes has length 0.\<close>

definition df_empty :: "dataframe \<Rightarrow> bool" where
  "df_empty df = (columns df = [] \<or> rows df = [])"

text \<open>
  \<open>Series.median()\<close> of an integer column: NaN for no values, the middle value of
  the sorted values for an odd count, the mean of the two middle values for an even count.
\<close>

definition series_median :: "int list \<Rightarrow> pyfloat" where
  "series_median xs =
     (let s = sort xs; n = length s in
      if n = 0 then NaN
      else if odd n then Fin (of_int (s ! (n div 2)))
      else Fin ((of_int (s ! (n div 2 - 1)) + of_int (s ! (n div 2))) / 2))"

section \<open>get\_comps\<close>

subsection \<open>The search URL of line 82\<close>

text \<open>
  The URL is written as a formatted string literal (an \<open>f"..."\<close> literal) on which
  \<open>.format\<close> is then called. Here is the text of the literal between its quotes.
\<close>

definition search_url_literal :: string where
  "search_url_literal =
      ''https://www.zillow.com/homes/{lat},{lon}_rb/?searchQueryState={{%22pagination%22'' @
      ''%3A{{}}%2C%22isMapVisible%22%3Atrue%2C%22filterState%22%3A{{%22sort%22%3A{{%22va'' @
      ''lue%22%3A%22globalrelevanceex%22}}%2C%22ah%22%3A{{%22value%22%3Atrue}}%2C%22sold'' @
      ''%22%3A{{%22value%22%3Atrue}}%2C%22rs%22%3A{{%22value%22%3Atrue}}%2C%22mf%22%3A{{'' @
      ''%22value%22%3Afalse}}%2C%22fsba%22%3A{{%22value%22%3Afalse}}%2C%22fsbo%22%3A{{%2'' @
      ''2value%22%3Afalse}}%2C%22nc%22%3A{{%22value%22%3Afalse}}%2C%22cmsn%22%3A{{%22val'' @
      ''ue%22%3Afalse}}%2C%22auc%22%3A{{%22value%22%3Afalse}}%2C%22fore%22%3A{{%22value%'' @
      ''22%3Afalse}}%2C%22pmf%22%3A{{%22value%22%3Afalse}}%2C%22pf%22%3A{{%22value%22%3A'' @
      ''false}}%2C%22mp%22%3A{{%22value%22%3Afalse}}%2C%22con%22%3A{{%22value%22%3Afalse'' @
      ''}}%2C%22land%22%3A{{%22value%22%3Afalse}}%2C%22tow%22%3A{{%22value%22%3Afalse}}%'' @
      ''2C%22apa%22%3A{{%22value%22%3Afalse}}%2C%22apco%22%3A{{%22value%22%3Afalse}}%2C%'' @
      ''22manu%22%3A{{%22value%22%3Afalse}}%2C%22house%22%3A{{%22value%22%3Atrue}}%2C%22'' @
      ''town%22%3A{{%22value%22%3Atrue}}%2C%22cond%22%3A{{%22value%22%3Atrue}}%2C%22aprt'' @
      ''%22%3A{{%22value%22%3Atrue}}%2C%22mlt%22%3A{{%22value%22%3Afalse}}%2C%22man%22%3'' @
      ''A{{%22value%22%3Afalse}}%2C%22lot%22%3A{{%22value%22%3Afalse}}%2C%22room%22%3A{{'' @
      ''%22value%22%3Afalse}}%2C%22sf%22%3A{{%22value%22%3Afalse}}%2C%22ha%22%3A{{%22val'' @
      ''ue%22%3Afalse}}%2C%22bd%22%3A{{%22value%22%3A%22{0}%22}}%2C%22ba%22%3A{{%22value'' @
      ''%22%3A%22{1}%22}}%2C%22sqft%22%3A{{%22value%22%3A%22{2}%22}}%2C%22lot%22%3A{{%22'' @
      ''value%22%3A%22{3}%22}}%2C%22yb%22%3A{{%22value%22%3A%22{4}%22}}%2C%22fr%22%3A{{%'' @
      ''22value%22%3Atrue}}%2C%22fs%22%3A{{%22value%22%3A30}}%2C%22fsbo%22%3A{{%22value%'' @
      ''22%3Afalse}}%2C%22cmsn%22%3A{{%22value%22%3Afalse}}%2C%22auc%22%3A{{%22value%22%'' @
      ''3Afalse}}%2C%22fore%22%3A{{%22value%22%3Afalse}}%2C%22pmf%22%3A{{%22value%22%3Af'' @
      ''alse}}%2C%22pf%22%3A{{%22value%22%3Afalse}}%2C%22mp%22%3A{{%22value%22%3Afalse}}'' @
      ''%2C%22fr%22%3A{{%22value%22%3Atrue}}%2C%22rh%22%3A{{%22value%22%3Atrue}}}}%2C%22'' @
      ''isListVisible%22%3Atrue%2C%22mapBounds%22%3A{{%22west%22%3A{5}%2C%22east%22%3A{6'' @
      ''}%2C%22south%22%3A{7}%2C%22north%22%3A{8}}}}%2C%22usersSearchTerm%22%3A%22{9}%22'' @
      ''}}''"

text \<open>
  How Python reads a formatted string literal: \<open>{{\<close> and \<open>}}\<close> stand for one
  brace, \<open>{\<close> opens a replacement field that holds an expression, and a closing
  brace on its own is a syntax error, as are a field that is not closed and an empty
  field. The fields of this literal hold a name or an integer literal, so a field is read
  up to the next closing brace.
\<close>

datatype fpart = Text string | Expr string

function fstring_scan :: "fpart list \<Rightarrow> string \<Rightarrow> py_error + fpart list" where
  "fstring_scan acc [] = Inr (rev acc)"
| "fstring_scan acc (c # cs) =
     (if c = CHR ''{'' then
        (case cs of
           [] \<Rightarrow> Inl SyntaxError
         | d # ds \<Rightarrow>
             if d = CHR ''{'' then fstring_scan (Text ''{'' # acc) ds
             else if CHR ''}'' \<in> set cs \<and> takeWhile (\<lambda>x. x \<noteq> CHR ''}'') cs \<noteq> [] then
               fstring_scan (Expr (takeWhile (\<lambda>x. x \<noteq> CHR ''}'') cs) # acc)
                 (tl (dropWhile (\<lambda>x. x \<noteq> CHR ''}'') cs))
             else Inl SyntaxError)
      else if c = CHR ''}'' then
        (case cs of
           [] \<Rightarrow> Inl SyntaxError
         | d # ds \<Rightarrow>
             if d = CHR ''}'' then fstring_scan (Text ''}'' # acc) ds
             else Inl SyntaxError)
      else fstring_scan (Text [c] # acc) cs)"
  by pat_completeness auto
termination
proof (relation "measure (\<lambda>(acc, s). length s)")
  show "wf (measure (\<lambda>(acc, s). length s))" by simp
next
  fix acc :: "fpart list" and c :: char and cs :: string and d :: char and ds :: string
  assume "cs = d # ds"
  then show "((Text ''{'' # acc, ds), (acc, c # cs)) \<in> measure (\<lambda>(acc, s). length s)"
    by simp
next
  fix acc :: "fpart list" and c :: char and cs :: string and d :: char and ds :: string
  have "length (tl (dropWhile (\<lambda>x. x \<noteq> CHR ''}'') cs))
          \<le> length (dropWhile (\<lambda>x. x \<noteq> CHR ''}'') cs)"
    by simp
  also have "\<dots> \<le> length cs"
    by (rule length_dropWhile_le)
  finally have "length (tl (dropWhile (\<lambda>x. x \<noteq> CHR ''}'') cs)) \<le> length cs" .
  then show "((Expr (takeWhile (\<lambda>x. x \<noteq> CHR ''}'') cs) # acc,
               tl (dropWhile (\<lambda>x. x \<noteq> CHR ''}'') cs)), (acc, c # cs))
             \<in> measure (\<lambda>(acc, s). length s)"
    by simp
next
  fix acc :: "fpart list" and c :: char and cs :: string and d :: char and ds :: string
  assume "cs = d # ds"
  then show "((Text ''}'' # acc, ds), (acc, c # cs)) \<in> measure (\<lambda>(acc, s). length s)"
    by simp
next
  fix acc :: "fpart list" and c :: char and cs :: string
  show "((Text [c] # acc, cs), (acc, c # cs)) \<in> measure (\<lambda>(acc, s). length s)"
    by simp
qed

text \<open>
  The values handed to \<open>.format\<close>, and the two library functions that the statement
  relies on: \<open>str\<close> on a float or \<open>None\<close>, and \<open>str.format\<close>. Both are
  parameters of the model.
\<close>

datatype pyval = IntV int | FloatV pyfloat | StrV string

record formatting =
  float_str :: "pyfloat option \<Rightarrow> string"
  str_format :: "string \<Rightarrow> pyval list \<Rightarrow> py_error + string"

text \<open>
  The value of a field of the literal: \<open>lat\<close> and \<open>lon\<close> are the parameters of
  \<open>get_comps\<close>, and an integer literal is printed as it is written.
\<close>

definition render_part :: "formatting \<Rightarrow> pyfloat option \<Rightarrow> pyfloat option \<Rightarrow> fpart \<Rightarrow> string" where
  "render_part fm lat lon part =
     (case part of
        Text t \<Rightarrow> t
      | Expr f \<Rightarrow>
          if f = ''lat'' then float_str fm lat
          else if f = ''lon'' then float_str fm lon
          else f)"

text \<open>\<open>x + d\<close> for a float or \<open>None\<close> \<open>x\<close> and a float constant \<open>d\<close>.\<close>

definition float_plus :: "pyfloat option \<Rightarrow> rat \<Rightarrow> py_error + pyfloat" where
  "float_plus x d =
     (case x of
        None \<Rightarrow> Inl TypeError
      | Some (Fin q) \<Rightarrow> Inr (Fin (q + d))
      | Some y \<Rightarrow> Inr y)"

text \<open>\<open>f"{n*0.8}-{n*1.2}"\<close>\<close>

definition range_text :: "formatting \<Rightarrow> int \<Rightarrow> string" where
  "range_text fm n =
     float_str fm (Some (Fin (of_int n * (4 / 5)))) @ ''-'' @
     float_str fm (Some (Fin (of_int n * (6 / 5))))"

text \<open>
  Lines 82 to 85. \<open>address\<close> is the global variable of the page, which line 84 reads.
\<close>

definition search_url ::
  "formatting \<Rightarrow> string \<Rightarrow> pyfloat option \<Rightarrow> pyfloat option \<Rightarrow>
     int \<Rightarrow> int \<Rightarrow> int \<Rightarrow> int \<Rightarrow> int \<Rightarrow> py_error + string" where
  "search_url fm address lat lon beds baths sq_ft lot_size year_built =
     pbind (fstring_scan [] search_url_literal) (\<lambda>parts.
     pbind (float_plus lon (- (1 / 100))) (\<lambda>a6.
     pbind (float_plus lon (1 / 100)) (\<lambda>a7.
     pbind (float_plus lat (- (1 / 100))) (\<lambda>a8.
     pbind (float_plus lat (1 / 100)) (\<lambda>a9.
       str_format fm (concat (map (render_part fm lat lon) parts))
         [IntV beds, IntV baths, StrV (range_text fm sq_ft), StrV (range_text fm lot_size),
          IntV (year_built - 10), IntV (year_built + 10),
          FloatV a6, FloatV a7, FloatV a8, FloatV a9, StrV address])))))"

subsection \<open>The result cards\<close>

text \<open>
  What lines 95 to 102 read from one \<open>article\<close> element of the parsed page: the text of
  its \<open>address\<close> element and of its spans with \<open>data-test\<close> equal to
  \<open>property-beds\<close>, \<open>property-baths\<close> and \<open>listing-card-sold-date\<close>, each
  \<open>None\<close> when \<open>find\<close> finds no such element, and the text of the whole card.
  The parser itself (BeautifulSoup with lxml) is a parameter: a function from the page to
  its cards, in the order of the page.
\<close>

record card =
  address_elem :: "string option"
  beds_span :: "string option"
  baths_span :: "string option"
  sold_date_span :: "string option"
  card_text :: string

text \<open>
  The patterns \<^verbatim>\<open>(\d+) sqft\<close> and \<^verbatim>\<open>Sold:\s*\$([\d,]+)\<close> of lines 100 and 101.
\<close>

definition comp_sq_ft_pattern :: pattern where
  "comp_sq_ft_pattern = (Eps, Plus Digit, Str '' sqft'')"

definition sold_price_pattern :: pattern where
  "sold_price_pattern =
     (Seq (Str ''Sold:'') (Seq (Star Space) (Chr CHR ''$'')),
      Plus (Atom (\<lambda>c. is_digit c \<or> c = CHR '','')), Eps)"

text \<open>Lines 95 to 102: the values read from a card, before the filter.\<close>

definition read_card :: "card \<Rightarrow> py_error + comp" where
  "read_card c =
     (let address_comp = (case address_elem c of Some t \<Rightarrow> strip t | None \<Rightarrow> []) in
      pbind (case beds_span c of
               Some t \<Rightarrow> pbind (first_token t) py_int
             | None \<Rightarrow> Inr 0) (\<lambda>beds_comp.
      pbind (case baths_span c of
               Some t \<Rightarrow> pbind (first_token t) py_float
             | None \<Rightarrow> Inr (Fin 0)) (\<lambda>baths_comp.
      pbind (int_no_commas_or_0 comp_sq_ft_pattern (card_text c)) (\<lambda>sq_ft_comp.
      pbind (int_no_commas_or_0 sold_price_pattern (card_text c)) (\<lambda>sold_price.
        (let sold_date = (case sold_date_span c of Some t \<Rightarrow> t | None \<Rightarrow> []) in
         Inr \<lparr>Address = address_comp, Beds = beds_comp, Baths = baths_comp,
              Sq_Ft = sq_ft_comp, Sold_Date = sold_date, Sold_Price = sold_price\<rparr>))))))"

text \<open>\<open>abs(x - n) <= 1\<close> for a float \<open>x\<close> and an int \<open>n\<close>.\<close>

definition float_within_1 :: "pyfloat \<Rightarrow> int \<Rightarrow> bool" where
  "float_within_1 x n = (case x of Fin q \<Rightarrow> \<bar>q - of_int n\<bar> \<le> 1 | _ \<Rightarrow> False)"

text \<open>The condition of lines 105 and 106.\<close>

definition similar :: "int \<Rightarrow> int \<Rightarrow> int \<Rightarrow> comp \<Rightarrow> bool" where
  "similar beds baths sq_ft e =
     (\<bar>Beds e - beds\<bar> \<le> 1 \<and> float_within_1 (Baths e) baths \<and>
      (4 / 5) * (of_int sq_ft :: rat) \<le> of_int (Sq_Ft e) \<and>
      (of_int (Sq_Ft e) :: rat) \<le> (6 / 5) * of_int sq_ft \<and>
      Sold_Date e \<noteq> [] \<and> str_contains ''2025'' (Sold_Date e))"

text \<open>The loop of lines 94 to 114: the cards in order, the first exception ends the call.\<close>

fun collect_comps :: "int \<Rightarrow> int \<Rightarrow> int \<Rightarrow> comp list \<Rightarrow> card list \<Rightarrow> py_error + comp list" where
  "collect_comps beds baths sq_ft comps [] = Inr comps"
| "collect_comps beds baths sq_ft comps (c # cs) =
     (case read_card c of
        Inl e \<Rightarrow> Inl e
      | Inr e \<Rightarrow>
          collect_comps beds baths sq_ft
            (if similar beds baths sq_ft e then comps @ [e] else comps) cs)"

text \<open>Lines 86 to 116: from the search URL to the frame.\<close>

definition comps_of_url ::
  "(string \<Rightarrow> response) \<Rightarrow> (string \<Rightarrow> card list) \<Rightarrow> int \<Rightarrow> int \<Rightarrow> int \<Rightarrow> string \<Rightarrow>
     py_error + dataframe" where
  "comps_of_url http find_cards beds baths sq_ft url =
     (let html = fetch_zillow_page http url in
      if html = [] then Inr (pd_DataFrame [])
      else pbind (collect_comps beds baths sq_ft [] (find_cards html))
             (\<lambda>comps. Inr (pd_DataFrame comps)))"

definition get_comps ::
  "formatting \<Rightarrow> (string \<Rightarrow> response) \<Rightarrow> (string \<Rightarrow> card list) \<Rightarrow> string \<Rightarrow>
     pyfloat option \<Rightarrow> pyfloat option \<Rightarrow> int \<Rightarrow> int \<Rightarrow> int \<Rightarrow> int \<Rightarrow> int \<Rightarrow>
     py_error + dataframe" where
  "get_comps fm http find_cards address lat lon beds baths sq_ft lot_size year_built =
     pbind (search_url fm address lat lon beds baths sq_ft lot_size year_built)
       (comps_of_url http find_cards beds baths sq_ft)"

section \<open>calculate\_arv\<close>

definition calculate_arv :: "dataframe \<Rightarrow> pyfloat" where
  "calculate_arv comps_df =
     (if \<not> df_empty comps_df \<and> ''Sold Price'' \<in> set (columns comps_df)
      then series_median (map Sold_Price (rows comps_df))
      else Fin 0)"

section \<open>Properties of calculate\_arv\<close>

lemma calculate_arv_frame:
  "calculate_arv (pd_DataFrame comps) =
     (if comps = [] then Fin 0 else series_median (map Sold_Price comps))"
  by (simp add: calculate_arv_def pd_DataFrame_def df_empty_def)

text \<open>
  C3. The estimate for a comparable set whose sold prices are 200000, 250000, 300000 is
  250000; for the empty set it is 0; for the two sold prices 100000, 200000 it is their
  mean 150000.
\<close>

theorem calculate_arv_examples:
  "(\<forall>comps. map Sold_Price comps = [200000, 250000, 300000] \<longrightarrow>
       calculate_arv (pd_DataFrame comps) = Fin 250000) \<and>
   calculate_arv (pd_DataFrame []) = Fin 0 \<and>
   (\<forall>comps. map Sold_Price comps = [100000, 200000] \<longrightarrow>
       calculate_arv (pd_DataFrame comps) = Fin 150000)"
proof (intro conjI allI impI)
  fix comps :: "comp list"
  assume p: "map Sold_Price comps = [200000, 250000, 300000]"
  then have "comps \<noteq> []" by auto
  then show "calculate_arv (pd_DataFrame comps) = Fin 250000"
    by (simp add: calculate_arv_frame p series_median_def)
next
  show "calculate_arv (pd_DataFrame []) = Fin 0"
    by (simp add: calculate_arv_frame)
next
  fix comps :: "comp list"
  assume p: "map Sold_Price comps = [100000, 200000]"
  then have "comps \<noteq> []" by auto
  then show "calculate_arv (pd_DataFrame comps) = Fin 150000"
    by (simp add: calculate_arv_frame p series_median_def)
qed

theorem calculate_arv_examples_witness:
  "calculate_arv (pd_DataFrame
      [\<lparr>Address = ''1 Elm St'', Beds = 3, Baths = Fin 2, Sq_Ft = 1500,
        Sold_Date = ''Sold 01/05/2025'', Sold_Price = 200000\<rparr>,
       \<lparr>Address = ''2 Elm St'', Beds = 3, Baths = Fin 2, Sq_Ft = 1600,
        Sold_Date = ''Sold 02/05/2025'', Sold_Price = 250000\<rparr>,
       \<lparr>Address = ''3 Elm St'', Beds = 4, Baths = Fin 2, Sq_Ft = 1700,
        Sold_Date = ''Sold 03/05/2025'', Sold_Price = 300000\<rparr>]) = Fin 250000 \<and>
   calculate_arv (pd_DataFrame
      [\<lparr>Address = ''1 Elm St'', Beds = 3, Baths = Fin 2, Sq_Ft = 1500,
        Sold_Date = ''Sold 01/05/2025'', Sold_Price = 100000\<rparr>,
       \<lparr>Address = ''2 Elm St'', Beds = 3, Baths = Fin 2, Sq_Ft = 1600,
        Sold_Date = ''Sold 02/05/2025'', Sold_Price = 200000\<rparr>]) = Fin 150000"
  using calculate_arv_examples by simp

end
